theory Spec2Isabelle
  imports Main "HOL-Library.Word"
begin

unbundle bit_operations_syntax

section \<open>The storage backends of the daemon (daemon/storage.go)\<close>

text \<open>
  The file defines the \<open>Storage\<close> interface, its two implementations
  \<open>OverlayFsStorage\<close> and \<open>RawBlockStorage\<close>, and the factory that picks one of
  them from the storage driver docker reports. Everything the two implementations do to
  the host goes through functions of other packages (\<open>overlay\<close>, \<open>rawblock\<close>,
  \<open>storage\<close>, \<open>syscall\<close>, \<open>os\<close>); these are parameters of the model, collected in the
  record \<open>env\<close> below, and the state of the host they act on is a type variable.
\<close>

subsection \<open>Values\<close>

text \<open>
  A Go \<open>error\<close> is either built by \<open>fmt.Errorf\<close> from a message or is a
  \<open>syscall.Errno\<close>. A Go result pair \<open>(T, error)\<close> whose first component is a pointer
  or an interface is a pair of options, \<open>None\<close> for \<open>nil\<close>.
\<close>

datatype error = Errorf string | Errno nat

text \<open>\<open>runv.VolumeDescription\<close>, with the fields the backends set.\<close>

record VolumeDescription =
  Name :: string
  Source :: string
  Fstype :: string
  Format :: string
  ReadOnly :: bool

text \<open>
  \<open>apitypes.UserVolume\<close>, the \<open>spec\<close> argument of \<open>CreateVolume\<close>. The Go code gets a
  pointer and assigns to the fields of the pointee; the model takes the pointee and
  returns it updated.
\<close>

record UserVolume =
  spec_Name :: string
  spec_Source :: string
  spec_Format :: string
  spec_Fstype :: string

text \<open>\<open>dockertypes.Info\<close>: only the field \<open>Driver\<close> is read. The database handle is opaque.\<close>

record Info =
  Driver :: string

datatype DaemonDB = DaemonDB

subsection \<open>\<open>filepath.Join\<close> on a Unix host\<close>

text \<open>
  \<open>strings.Join\<close>, and \<open>filepath.Clean\<close> by path elements: empty elements and
  \<open>.\<close> are dropped, an inner \<open>..\<close> removes the element before it, a \<open>..\<close> at the
  start of a rooted path is dropped and kept at the start of a relative one; the empty
  result is \<open>.\<close>. \<open>filepath.Join\<close> skips leading empty elements, joins the rest with the
  separator and cleans the result; with no non-empty element it is the empty string.
\<close>

fun strings_Join :: "string list \<Rightarrow> string \<Rightarrow> string" where
  "strings_Join [] sep = []"
| "strings_Join [x] sep = x"
| "strings_Join (x # y # ys) sep = x @ sep @ strings_Join (y # ys) sep"

fun split_sep :: "string \<Rightarrow> string list" where
  "split_sep [] = [[]]"
| "split_sep (c # cs) =
     (if c = CHR ''/'' then [] # split_sep cs
      else (case split_sep cs of [] \<Rightarrow> [[c]] | x # xs \<Rightarrow> (c # x) # xs))"

fun clean_step :: "bool \<Rightarrow> string list \<Rightarrow> string \<Rightarrow> string list" where
  "clean_step rooted out c =
     (if c = [] \<or> c = ''.'' then out
      else if c = ''..'' then
        (case out of
           [] \<Rightarrow> if rooted then [] else [''..'']
         | t # ts \<Rightarrow> if t = ''..'' then ''..'' # out else ts)
      else c # out)"

definition filepath_Clean :: "string \<Rightarrow> string" where
  "filepath_Clean p =
     (let rooted = (case p of [] \<Rightarrow> False | c # _ \<Rightarrow> c = CHR ''/'');
          out = rev (foldl (clean_step rooted) [] (split_sep p))
      in if rooted then CHR ''/'' # strings_Join out ''/''
         else if out = [] then ''.''
         else strings_Join out ''/'')"

fun filepath_Join :: "string list \<Rightarrow> string" where
  "filepath_Join [] = []"
| "filepath_Join (e # es) =
     (if e \<noteq> [] then filepath_Clean (strings_Join (e # es) ''/'') else filepath_Join es)"

text \<open>
  A plain name is a path element that \<open>filepath.Clean\<close> keeps as it is: not empty,
  without a separator, and neither \<open>.\<close> nor \<open>..\<close>. A clean absolute path is a
  slash followed by plain names with single slashes between them.
\<close>

definition plain :: "string \<Rightarrow> bool" where
  "plain c \<longleftrightarrow> c \<noteq> [] \<and> CHR ''/'' \<notin> set c \<and> c \<noteq> ''.'' \<and> c \<noteq> ''..''"

definition clean_abs :: "string \<Rightarrow> bool" where
  "clean_abs p \<longleftrightarrow>
     (case p of
        [] \<Rightarrow> False
      | c # rest \<Rightarrow> c = CHR ''/'' \<and> list_all plain (split_sep rest))"

subsection \<open>The packages the file calls\<close>

text \<open>
  \<open>'w\<close> is the state of the host: its mount table, its file system, its attached
  images. Every function that touches the host takes the state and returns it with its
  Go result. \<open>HYPER_ROOT\<close> is the variable \<open>utils.HYPER_ROOT\<close> and
  \<open>DEFAULT_DM_VOL_SIZE\<close> the constant \<open>storage.DEFAULT_DM_VOL_SIZE\<close>. \<open>io.Reader\<close>
  arguments are the bytes to be read, and the \<open>os.FileMode\<close> that \<open>os.MkdirAll\<close>
  takes is a 32-bit word. The lines \<open>glog.Error\<close> writes are not part of the state.
\<close>

record 'w env =
  HYPER_ROOT :: string
  DEFAULT_DM_VOL_SIZE :: int
  MountContainerToSharedDir ::
    "string \<Rightarrow> string \<Rightarrow> string \<Rightarrow> string \<Rightarrow> bool \<Rightarrow> 'w \<Rightarrow> (string \<times> error option) \<times> 'w"
  Unmount :: "string \<Rightarrow> int \<Rightarrow> 'w \<Rightarrow> error option \<times> 'w"
  FsInjectFile ::
    "string \<Rightarrow> string \<Rightarrow> string \<Rightarrow> string \<Rightarrow> int \<Rightarrow> int \<Rightarrow> int \<Rightarrow> 'w \<Rightarrow> error option \<times> 'w"
  CreateVFSVolume :: "string \<Rightarrow> string \<Rightarrow> 'w \<Rightarrow> (string \<times> error option) \<times> 'w"
  GetImage ::
    "string \<Rightarrow> string \<Rightarrow> string \<Rightarrow> string \<Rightarrow> string \<Rightarrow> int \<Rightarrow> int \<Rightarrow> 'w \<Rightarrow> error option \<times> 'w"
  PutImage :: "string \<Rightarrow> string \<Rightarrow> 'w \<Rightarrow> error option \<times> 'w"
  CreateBlock :: "string \<Rightarrow> string \<Rightarrow> string \<Rightarrow> 64 word \<Rightarrow> 'w \<Rightarrow> error option \<times> 'w"
  MkdirAll :: "string \<Rightarrow> 32 word \<Rightarrow> 'w \<Rightarrow> error option \<times> 'w"

subsection \<open>The interface and its two implementations\<close>

text \<open>
  The two structs that implement \<open>Storage\<close> have one field each, \<open>rootPath\<close>; a value
  of the interface is one of the two.
\<close>

datatype Storage = OverlayFsStorage (rootPath: string) | RawBlockStorage (rootPath: string)

text \<open>
  The two constructors, the registry and the factory. \<open>StorageDrivers\<close> is the map
  the variable of that name is initialised with; the file does not assign to it again.
  The pointer \<open>sysinfo\<close> is taken to be valid, and the factory gets what it points to.
\<close>

definition OverlayFsFactory ::
  "'w env \<Rightarrow> Info \<Rightarrow> DaemonDB \<Rightarrow> Storage option \<times> error option" where
  "OverlayFsFactory env sysinfo db =
     (Some (OverlayFsStorage (filepath_Join [HYPER_ROOT env, ''overlay''])), None)"

definition RawBlockFactory ::
  "'w env \<Rightarrow> Info \<Rightarrow> DaemonDB \<Rightarrow> Storage option \<times> error option" where
  "RawBlockFactory env sysinfo db =
     (Some (RawBlockStorage (filepath_Join [HYPER_ROOT env, ''rawblock''])), None)"

definition StorageDrivers ::
  "string \<rightharpoonup> ('w env \<Rightarrow> Info \<Rightarrow> DaemonDB \<Rightarrow> Storage option \<times> error option)" where
  "StorageDrivers =
     map_of [(''overlay'', OverlayFsFactory), (''rawblock'', RawBlockFactory)]"

definition StorageFactory ::
  "'w env \<Rightarrow> Info \<Rightarrow> DaemonDB \<Rightarrow> Storage option \<times> error option" where
  "StorageFactory env sysinfo db =
     (case StorageDrivers (Driver sysinfo) of
        Some factory \<Rightarrow> factory env sysinfo db
      | None \<Rightarrow>
          (None, Some (Errorf (''hyperd can not support docker's backing storage: ''
                                 @ Driver sysinfo))))"

fun Type :: "Storage \<Rightarrow> string" where
  "Type (OverlayFsStorage root) = ''overlay''"
| "Type (RawBlockStorage root) = ''rawblock''"

fun RootPath :: "Storage \<Rightarrow> string" where
  "RootPath (OverlayFsStorage root) = root"
| "RootPath (RawBlockStorage root) = root"

text \<open>
  \<open>Init\<close> and \<open>CleanUp\<close>. The permission bits \<open>0700\<close> of the source are the
  number 448.
\<close>

fun Init :: "'w env \<Rightarrow> Storage \<Rightarrow> 'w \<Rightarrow> error option \<times> 'w" where
  "Init env (OverlayFsStorage root) w = (None, w)"
| "Init env (RawBlockStorage root) w =
     (case MkdirAll env (filepath_Join [RootPath (RawBlockStorage root), ''volumes'']) 448 w of
        (Some err, w') \<Rightarrow> (Some err, w')
      | (None, w') \<Rightarrow> (None, w'))"

fun CleanUp :: "'w env \<Rightarrow> Storage \<Rightarrow> 'w \<Rightarrow> error option \<times> 'w" where
  "CleanUp env (OverlayFsStorage root) w = (None, w)"
| "CleanUp env (RawBlockStorage root) w = (None, w)"

fun PrepareContainer ::
  "'w env \<Rightarrow> Storage \<Rightarrow> string \<Rightarrow> string \<Rightarrow> bool \<Rightarrow> 'w
     \<Rightarrow> (VolumeDescription option \<times> error option) \<times> 'w" where
  "PrepareContainer env (OverlayFsStorage root) mountId sharedDir readonly w =
     (case MountContainerToSharedDir env mountId (RootPath (OverlayFsStorage root))
             sharedDir [] readonly w of
        ((_, Some err), w') \<Rightarrow> ((None, Some err), w')
      | ((_, None), w') \<Rightarrow>
          (let containerPath = ''/'' @ mountId
           in ((Some \<lparr>Name = containerPath, Source = containerPath, Fstype = ''dir'',
                       Format = ''vfs'', ReadOnly = readonly\<rparr>, None), w')))"
| "PrepareContainer env (RawBlockStorage root) containerId sharedDir readonly w =
     (let devFullName = filepath_Join [RootPath (RawBlockStorage root), ''blocks'', containerId]
      in ((Some \<lparr>Name = devFullName, Source = devFullName, Fstype = ''xfs'',
                  Format = ''raw'', ReadOnly = readonly\<rparr>, None), w))"

fun CleanupContainer :: "'w env \<Rightarrow> Storage \<Rightarrow> string \<Rightarrow> string \<Rightarrow> 'w \<Rightarrow> error option \<times> 'w" where
  "CleanupContainer env (OverlayFsStorage root) ident sharedDir w =
     Unmount env (filepath_Join [sharedDir, ident, ''rootfs'']) 0 w"
| "CleanupContainer env (RawBlockStorage root) ident sharedDir w = (None, w)"

text \<open>
  \<open>InjectFile\<close>. The statement \<open>defer f(args)\<close> evaluates \<open>args\<close> where it stands, and
  calls \<open>f\<close> after the operand of \<open>return\<close> has been evaluated; what \<open>f\<close> returns is
  dropped. So the release runs on the state the copy leaves, and the result of
  \<open>InjectFile\<close> is the result of the copy.
\<close>

fun InjectFile ::
  "'w env \<Rightarrow> Storage \<Rightarrow> string \<Rightarrow> string \<Rightarrow> string \<Rightarrow> string \<Rightarrow> int \<Rightarrow> int \<Rightarrow> int \<Rightarrow> 'w
     \<Rightarrow> error option \<times> 'w" where
  "InjectFile env (OverlayFsStorage root) src mountId target baseDir perm uid gid w =
     (case MountContainerToSharedDir env mountId (RootPath (OverlayFsStorage root))
             baseDir [] False w of
        ((_, Some err), w1) \<Rightarrow> (Some err, w1)
      | ((_, None), w1) \<Rightarrow>
          (case FsInjectFile env src mountId target baseDir perm uid gid w1 of
             (r, w2) \<Rightarrow>
               (case Unmount env (filepath_Join [baseDir, mountId, ''rootfs'']) 0 w2 of
                  (_, w3) \<Rightarrow> (r, w3))))"
| "InjectFile env (RawBlockStorage root) src mountId target baseDir perm uid gid w =
     (case GetImage env (filepath_Join [RootPath (RawBlockStorage root), ''blocks''])
             baseDir mountId ''xfs'' [] uid gid w of
        (Some err, w1) \<Rightarrow> (Some err, w1)
      | (None, w1) \<Rightarrow>
          (case FsInjectFile env src mountId target baseDir perm uid gid w1 of
             (r, w2) \<Rightarrow>
               (case PutImage env baseDir mountId w2 of
                  (_, w3) \<Rightarrow> (r, w3))))"

text \<open>
  \<open>CreateVolume\<close> returns the error and the spec as the call leaves it.
  \<open>fmt.Sprintf("%s-%s", podId, spec.Name)\<close> is the two strings around a dash, and
  \<open>uint64(storage.DEFAULT_DM_VOL_SIZE)\<close> the constant as a 64-bit word.
\<close>

fun CreateVolume ::
  "'w env \<Rightarrow> Storage \<Rightarrow> string \<Rightarrow> UserVolume \<Rightarrow> 'w \<Rightarrow> (error option \<times> UserVolume) \<times> 'w" where
  "CreateVolume env (OverlayFsStorage root) podId spec w =
     (case CreateVFSVolume env podId (spec_Name spec) w of
        ((_, Some err), w') \<Rightarrow> ((Some err, spec), w')
      | ((volName, None), w') \<Rightarrow>
          ((None, spec\<lparr>spec_Source := volName, spec_Format := ''vfs'',
                        spec_Fstype := ''dir''\<rparr>), w'))"
| "CreateVolume env (RawBlockStorage root) podId spec w =
     (let block = filepath_Join [RootPath (RawBlockStorage root), ''volumes'',
                                 podId @ ''-'' @ spec_Name spec]
      in case CreateBlock env block ''xfs'' [] (word_of_int (DEFAULT_DM_VOL_SIZE env)) w of
           (Some err, w') \<Rightarrow> ((Some err, spec), w')
         | (None, w') \<Rightarrow>
             ((None, spec\<lparr>spec_Source := block, spec_Fstype := ''xfs'',
                           spec_Format := ''raw''\<rparr>), w'))"

fun RemoveVolume :: "'w env \<Rightarrow> Storage \<Rightarrow> string \<Rightarrow> string \<Rightarrow> 'w \<Rightarrow> error option \<times> 'w" where
  "RemoveVolume env (OverlayFsStorage root) podId record w = (None, w)"
| "RemoveVolume env (RawBlockStorage root) podId record w = (None, w)"

subsection \<open>What the helpers promise\<close>




definition MkdirAll_keeps :: "'w env \<Rightarrow> ('w \<Rightarrow> string \<Rightarrow> 32 word option) \<Rightarrow> bool" where
  "MkdirAll_keeps env mode \<longleftrightarrow>
     (\<forall>p perm w. mode w p \<noteq> None \<longrightarrow> MkdirAll env p perm w = (None, w))"

definition MkdirAll_creates :: "'w env \<Rightarrow> ('w \<Rightarrow> string \<Rightarrow> 32 word option) \<Rightarrow> bool" where
  "MkdirAll_creates env mode \<longleftrightarrow>
     (\<forall>p perm w w'. mode w p = None \<longrightarrow> MkdirAll env p perm w = (None, w') \<longrightarrow>
        (\<exists>m. mode w' p = Some m \<and> m AND NOT perm = 0))"

subsection \<open>A sample host\<close>

text \<open>
  A small host on which the operations can be run: a mount table, the mount points that
  are in use, the images attached for an injection, the containers whose data the
  backend has, the umask of the process, the directories with their permission bits,
  the regular files and the block images with their sizes.
\<close>

record host =
  mounts :: "string list"
  busy :: "string list"
  attached :: "(string \<times> string) list"
  layers :: "string list"
  umask :: "32 word"
  dirs :: "(string \<times> 32 word) list"
  files :: "string list"
  blocks :: "(string \<times> 64 word) list"

definition mounted :: "host \<Rightarrow> string \<Rightarrow> bool" where
  "mounted h p \<longleftrightarrow> p \<in> set (mounts h)"

definition dir_mode :: "host \<Rightarrow> string \<Rightarrow> 32 word option" where
  "dir_mode h p = map_of (dirs h) p"

text \<open>
  Modelled from the spec: the union-mount helper \<open>overlay.MountContainerToSharedDir\<close>,
  which is not in the source file. It places the union mount of the container at
  \<open>sharedDir/containerId/rootfs\<close> and returns the mount point; it fails with
  \<open>ENOENT\<close> (2) when the backend has no data for the container.
\<close>

definition host_MountContainerToSharedDir ::
  "string \<Rightarrow> string \<Rightarrow> string \<Rightarrow> string \<Rightarrow> bool \<Rightarrow> host \<Rightarrow> (string \<times> error option) \<times> host" where
  "host_MountContainerToSharedDir containerId rootDir sharedDir mountLabel readonly h =
     (let mountPoint = filepath_Join [sharedDir, containerId, ''rootfs'']
      in if containerId \<in> set (layers h)
         then ((mountPoint, None), h\<lparr>mounts := mountPoint # mounts h\<rparr>)
         else (([], Some (Errno 2)), h))"

text \<open>
  Modelled from the spec: \<open>syscall.Unmount\<close>. A path that is not mounted is refused
  with \<open>EINVAL\<close> (22), a mount point in use with \<open>EBUSY\<close> (16); both leave the mount
  table as it is. Otherwise the path is no longer mounted.
\<close>

definition host_Unmount :: "string \<Rightarrow> int \<Rightarrow> host \<Rightarrow> error option \<times> host" where
  "host_Unmount p flags h =
     (if p \<notin> set (mounts h) then (Some (Errno 22), h)
      else if p \<in> set (busy h) then (Some (Errno 16), h)
      else (None, h\<lparr>mounts := removeAll p (mounts h)\<rparr>))"

text \<open>
  Modelled from the spec: the file-copy helper \<open>storage.FsInjectFile\<close>, which works on
  a tree that is already mounted. It fails with \<open>ENOENT\<close> (2) when nothing is mounted
  or attached for the container under \<open>baseDir\<close>, and with \<open>EISDIR\<close> (21) when the
  target is the root of the tree; otherwise the target is a regular file afterwards.
\<close>

definition host_FsInjectFile ::
  "string \<Rightarrow> string \<Rightarrow> string \<Rightarrow> string \<Rightarrow> int \<Rightarrow> int \<Rightarrow> int \<Rightarrow> host \<Rightarrow> error option \<times> host" where
  "host_FsInjectFile src containerId target baseDir perm uid gid h =
     (let tree = filepath_Join [baseDir, containerId, ''rootfs''];
          dest = filepath_Join [tree, target]
      in if tree \<notin> set (mounts h) \<and> (baseDir, containerId) \<notin> set (attached h)
         then (Some (Errno 2), h)
         else if dest = tree then (Some (Errno 21), h)
         else (None, h\<lparr>files := dest # files h\<rparr>))"

text \<open>
  Modelled from the spec: \<open>storage.CreateVFSVolume\<close>, which allocates a fresh
  directory keyed by the pod and the volume name and returns its path; here under
  \<open>/var/lib/hyper/vfs\<close>, with the bits \<open>0755\<close> (493) that the umask leaves, and
  refused with \<open>EEXIST\<close> (17) when the directory is there already.
\<close>

definition host_CreateVFSVolume :: "string \<Rightarrow> string \<Rightarrow> host \<Rightarrow> (string \<times> error option) \<times> host" where
  "host_CreateVFSVolume podId shortName h =
     (let volName = filepath_Join [''/var/lib/hyper/vfs'', podId, shortName]
      in if volName \<in> fst ` set (dirs h) then (([], Some (Errno 17)), h)
         else ((volName, None),
               h\<lparr>dirs := (volName, 493 AND NOT (umask h)) # dirs h\<rparr>))"

text \<open>
  Modelled from the spec: the block-image helpers \<open>rawblock.GetImage\<close>,
  \<open>rawblock.PutImage\<close> and \<open>rawblock.CreateBlock\<close>. Attaching fails with
  \<open>ENOENT\<close> (2) when the backend has no image of the container; detaching is refused
  with \<open>EINVAL\<close> (22) when the image is not attached and with \<open>EBUSY\<close> (16) when its
  tree is in use; creating is refused with \<open>EEXIST\<close> (17) when the image exists.
\<close>

definition host_GetImage ::
  "string \<Rightarrow> string \<Rightarrow> string \<Rightarrow> string \<Rightarrow> string \<Rightarrow> int \<Rightarrow> int \<Rightarrow> host \<Rightarrow> error option \<times> host" where
  "host_GetImage graphHome mntHome ident backingFs mountLabel uid gid h =
     (if ident \<in> set (layers h)
      then (None, h\<lparr>attached := (mntHome, ident) # attached h\<rparr>)
      else (Some (Errno 2), h))"

definition host_PutImage :: "string \<Rightarrow> string \<Rightarrow> host \<Rightarrow> error option \<times> host" where
  "host_PutImage mntHome ident h =
     (if (mntHome, ident) \<notin> set (attached h) then (Some (Errno 22), h)
      else if filepath_Join [mntHome, ident, ''rootfs''] \<in> set (busy h)
      then (Some (Errno 16), h)
      else (None, h\<lparr>attached := removeAll (mntHome, ident) (attached h)\<rparr>))"

definition host_CreateBlock ::
  "string \<Rightarrow> string \<Rightarrow> string \<Rightarrow> 64 word \<Rightarrow> host \<Rightarrow> error option \<times> host" where
  "host_CreateBlock block fstype mountLabel sz h =
     (if block \<in> fst ` set (blocks h) then (Some (Errno 17), h)
      else (None, h\<lparr>blocks := (block, sz) # blocks h\<rparr>))"

text \<open>
  Modelled from the spec: \<open>os.MkdirAll\<close>, for the directory it is called with. A
  directory that exists is left alone, with success; a regular file in its place makes
  the call fail with \<open>ENOTDIR\<close> (20); otherwise the directory is created with the
  permission bits of the call that the umask does not clear.
\<close>

definition host_MkdirAll :: "string \<Rightarrow> 32 word \<Rightarrow> host \<Rightarrow> error option \<times> host" where
  "host_MkdirAll p perm h =
     (if map_of (dirs h) p \<noteq> None then (None, h)
      else if p \<in> set (files h) then (Some (Errno 20), h)
      else (None, h\<lparr>dirs := (p, perm AND NOT (umask h)) # dirs h\<rparr>))"

definition host_env :: "host env" where
  "host_env =
     \<lparr>HYPER_ROOT = ''/var/lib/hyper'',
      DEFAULT_DM_VOL_SIZE = 2147483648,
      MountContainerToSharedDir = host_MountContainerToSharedDir,
      Unmount = host_Unmount,
      FsInjectFile = host_FsInjectFile,
      CreateVFSVolume = host_CreateVFSVolume,
      GetImage = host_GetImage,
      PutImage = host_PutImage,
      CreateBlock = host_CreateBlock,
      MkdirAll = host_MkdirAll\<rparr>"

text \<open>
  An empty host that has the data of container \<open>c1\<close> and the umask \<open>0022\<close> (18),
  and the same host with \<open>c1\<close>'s tree under \<open>/run/hyper\<close> in use.
\<close>

definition host0 :: host where
  "host0 = \<lparr>mounts = [], busy = [], attached = [], layers = [''c1''], umask = 18,
            dirs = [], files = [], blocks = []\<rparr>"

definition host_busy :: host where
  "host_busy = host0\<lparr>busy := [''/run/hyper/c1/rootfs'']\<rparr>"

text \<open>
  A host on which the names \<open>CreateVolume\<close> and \<open>Init\<close> ask for are taken, a host
  on which the volume directory of the raw-block backend exists with the permission
  bits \<open>0755\<close> (493), a host with the umask \<open>0377\<close> (255), and the two backends and
  a volume request that the examples run on.
\<close>

definition host_used :: host where
  "host_used =
     host0\<lparr>dirs := [(''/var/lib/hyper/vfs/p1/data'', 493)],
           files := [''/var/lib/hyper/rawblock/volumes''],
           blocks := [(''/var/lib/hyper/rawblock/volumes/p1-data'', 2147483648)]\<rparr>"

definition host_old :: host where
  "host_old = host0\<lparr>dirs := [(''/var/lib/hyper/rawblock/volumes'', 493)]\<rparr>"

definition host_strict :: host where
  "host_strict = host0\<lparr>umask := 255\<rparr>"

definition overlay0 :: Storage where
  "overlay0 = OverlayFsStorage ''/var/lib/hyper/overlay''"

definition rawblock0 :: Storage where
  "rawblock0 = RawBlockStorage ''/var/lib/hyper/rawblock''"

definition spec0 :: UserVolume where
  "spec0 = \<lparr>spec_Name = ''data'', spec_Source = [], spec_Format = [], spec_Fstype = []\<rparr>"

section \<open>Properties\<close>

subsection \<open>The sample host keeps the promises\<close>

lemmas host_simps =
  host_env_def host0_def
  overlay0_def rawblock0_def spec0_def mounted_def dir_mode_def
  host_MountContainerToSharedDir_def host_Unmount_def host_FsInjectFile_def
  host_CreateVFSVolume_def host_GetImage_def host_PutImage_def host_CreateBlock_def
  host_MkdirAll_def filepath_Clean_def Let_def




lemma host_MkdirAll_keeps: "MkdirAll_keeps host_env dir_mode"
  by (simp add: MkdirAll_keeps_def host_env_def host_MkdirAll_def dir_mode_def)

lemma and_not_within: "(perm AND NOT u) AND NOT perm = (0 :: 32 word)"
  by (simp add: bit_eq_iff bit_and_iff bit_not_iff)

lemma host_MkdirAll_creates: "MkdirAll_creates host_env dir_mode"
  by (auto simp: MkdirAll_creates_def host_env_def host_MkdirAll_def dir_mode_def
      and_not_within split: if_splits)

subsection \<open>Paths of plain names\<close>

text \<open>
  Splitting a path at the separators and joining the parts again gives the path back,
  so \<open>filepath.Clean\<close> leaves a clean absolute path as it is, and \<open>filepath.Join\<close>
  of such a path and of plain names is the path and the names with single slashes
  between them.
\<close>

lemma split_sep_nonempty: "split_sep p \<noteq> []"
  by (induction p) (auto split: list.splits)

lemma split_sep_no_slash: "CHR ''/'' \<notin> set c \<Longrightarrow> split_sep c = [c]"
  by (induction c) auto

lemma split_sep_append:
  "CHR ''/'' \<notin> set b \<Longrightarrow> split_sep (a @ CHR ''/'' # b) = split_sep a @ [b]"
  by (induction a) (auto simp: split_sep_no_slash split_sep_nonempty split: list.splits)

lemma strings_Join_split_sep: "strings_Join (split_sep p) ''/'' = p"
proof (induction p)
  case Nil
  then show ?case by simp
next
  case (Cons c p)
  obtain x xs where parts: "split_sep p = x # xs"
    using split_sep_nonempty [of p] by (cases "split_sep p") auto
  show ?case
  proof (cases "c = CHR ''/''")
    case True
    with parts Cons show ?thesis by simp
  next
    case False
    with parts Cons show ?thesis by (cases xs) auto
  qed
qed

lemma foldl_clean_step_plain:
  "list_all plain cs \<Longrightarrow> foldl (clean_step r) acc cs = rev cs @ acc"
  by (induction cs arbitrary: acc) (auto simp: plain_def)

lemma Clean_clean_abs:
  assumes "clean_abs p"
  shows "filepath_Clean p = p"
proof -
  from assms obtain rest
    where p: "p = CHR ''/'' # rest" and names: "list_all plain (split_sep rest)"
    by (auto simp: clean_abs_def split: list.splits)
  from names have "foldl (clean_step True) [] (split_sep p) = rev (split_sep rest)"
    by (simp add: p foldl_clean_step_plain)
  then show ?thesis
    by (simp add: filepath_Clean_def p strings_Join_split_sep)
qed

lemma clean_abs_append: "clean_abs p \<Longrightarrow> plain c \<Longrightarrow> clean_abs (p @ CHR ''/'' # c)"
  by (auto simp: clean_abs_def split_sep_append plain_def split: list.splits)

lemma Join_plain2:
  "clean_abs root \<Longrightarrow> plain a \<Longrightarrow> filepath_Join [root, a] = root @ ''/'' @ a"
  using Clean_clean_abs [OF clean_abs_append, of root a]
  by (auto simp: clean_abs_def split: list.splits)

lemma Join_plain3:
  "clean_abs root \<Longrightarrow> plain a \<Longrightarrow> plain b \<Longrightarrow>
     filepath_Join [root, a, b] = root @ ''/'' @ a @ ''/'' @ b"
  using Clean_clean_abs [OF clean_abs_append [OF clean_abs_append], of root a b]
  by (auto simp: clean_abs_def split: list.splits)

text \<open>The paths the examples meet.\<close>

lemma Join_examples:
  "filepath_Join [''/var/lib/hyper'', ''overlay''] = ''/var/lib/hyper/overlay''"
  "filepath_Join [''/var/lib/hyper'', ''rawblock''] = ''/var/lib/hyper/rawblock''"
  "filepath_Join [''/var/lib/hyper/rawblock'', ''blocks'', ''c1'']
     = ''/var/lib/hyper/rawblock/blocks/c1''"
  "filepath_Join [''/var/lib/hyper/rawblock'', ''volumes'', ''p1-data'']
     = ''/var/lib/hyper/rawblock/volumes/p1-data''"
  "filepath_Join [''/run/hyper'', ''c1'', ''rootfs''] = ''/run/hyper/c1/rootfs''"
  by (simp_all add: filepath_Clean_def)

subsection \<open>Selection of the backend\<close>

text \<open>
  Claim C1. The registry has exactly the entries \<open>overlay\<close> and \<open>rawblock\<close>. For a
  driver name with an entry, \<open>StorageFactory\<close> returns a backend and no error, and the
  \<open>Type\<close> of the backend is the driver name. For any other name it returns no backend
  and the error whose message is
  \<open>hyperd can not support docker's backing storage:\<close> followed by the name.
\<close>

theorem StorageFactory_selects:
  fixes env :: "'w env"
  shows
   "dom (StorageDrivers ::
          string \<rightharpoonup> ('w env \<Rightarrow> Info \<Rightarrow> DaemonDB \<Rightarrow> Storage option \<times> error option))
      = {''overlay'', ''rawblock''}
    \<and> (Driver sysinfo \<in> {''overlay'', ''rawblock''} \<longrightarrow>
         (\<exists>s. StorageFactory env sysinfo db = (Some s, None) \<and> Type s = Driver sysinfo))
    \<and> (Driver sysinfo \<notin> {''overlay'', ''rawblock''} \<longrightarrow>
         StorageFactory env sysinfo db =
           (None, Some (Errorf (''hyperd can not support docker's backing storage: ''
                                  @ Driver sysinfo))))"
  by (auto simp: StorageFactory_def StorageDrivers_def OverlayFsFactory_def
      RawBlockFactory_def dom_def split: if_splits)

theorem StorageFactory_selects_witness:
  "StorageFactory host_env \<lparr>Driver = ''overlay''\<rparr> DaemonDB = (Some overlay0, None)
   \<and> Type overlay0 = ''overlay''
   \<and> StorageFactory host_env \<lparr>Driver = ''rawblock''\<rparr> DaemonDB = (Some rawblock0, None)
   \<and> Type rawblock0 = ''rawblock''
   \<and> StorageFactory host_env \<lparr>Driver = ''aufs''\<rparr> DaemonDB =
        (None, Some (Errorf ''hyperd can not support docker's backing storage: aufs''))"
  using StorageFactory_selects [where env = host_env and sysinfo = "\<lparr>Driver = ''overlay''\<rparr>"
          and db = DaemonDB]
        StorageFactory_selects [where env = host_env and sysinfo = "\<lparr>Driver = ''rawblock''\<rparr>"
          and db = DaemonDB]
        StorageFactory_selects [where env = host_env and sysinfo = "\<lparr>Driver = ''aufs''\<rparr>"
          and db = DaemonDB]
  by (simp add: StorageFactory_def StorageDrivers_def OverlayFsFactory_def
      RawBlockFactory_def host_simps)

subsection \<open>Preparing a container\<close>

text \<open>
  Claim C2. The overlay \<open>PrepareContainer\<close> calls the union-mount helper with the
  container, the root path of the backend, the shared directory, an empty label and
  the read-only flag. If the helper returns an error, \<open>PrepareContainer\<close> returns that
  error and no descriptor. If the helper succeeds, it returns no error and the
  descriptor with \<open>Name\<close> and \<open>Source\<close> equal to a slash followed by the container id,
  \<open>Fstype = dir\<close>, \<open>Format = vfs\<close> and \<open>ReadOnly\<close> equal to the flag.
\<close>

theorem Overlay_PrepareContainer_result:
  "(\<forall>mp err w'.
      MountContainerToSharedDir env mountId root sharedDir [] readonly w
        = ((mp, Some err), w') \<longrightarrow>
      PrepareContainer env (OverlayFsStorage root) mountId sharedDir readonly w
        = ((None, Some err), w'))
   \<and> (\<forall>mp w'.
      MountContainerToSharedDir env mountId root sharedDir [] readonly w
        = ((mp, None), w') \<longrightarrow>
      PrepareContainer env (OverlayFsStorage root) mountId sharedDir readonly w
        = ((Some \<lparr>Name = ''/'' @ mountId, Source = ''/'' @ mountId, Fstype = ''dir'',
                    Format = ''vfs'', ReadOnly = readonly\<rparr>, None), w'))"
  by (simp add: Let_def)

theorem Overlay_PrepareContainer_result_witness:
  "PrepareContainer host_env overlay0 ''c2'' ''/run/hyper'' True host0
     = ((None, Some (Errno 2)), host0)
   \<and> PrepareContainer host_env overlay0 ''c1'' ''/run/hyper'' True host0
     = ((Some \<lparr>Name = ''/c1'', Source = ''/c1'', Fstype = ''dir'', Format = ''vfs'',
                ReadOnly = True\<rparr>, None),
        host0\<lparr>mounts := [''/run/hyper/c1/rootfs'']\<rparr>)"
  using Overlay_PrepareContainer_result [where env = host_env and mountId = "''c2''"
          and root = "''/var/lib/hyper/overlay''" and sharedDir = "''/run/hyper''"
          and readonly = True and w = host0]
        Overlay_PrepareContainer_result [where env = host_env and mountId = "''c1''"
          and root = "''/var/lib/hyper/overlay''" and sharedDir = "''/run/hyper''"
          and readonly = True and w = host0]
  by (simp add: host_simps)

text \<open>
  Claim C3. The raw-block \<open>PrepareContainer\<close> calls no helper and returns the host
  state it was given. Its descriptor has \<open>Name\<close> and \<open>Source\<close> equal to the path that
  \<open>filepath.Join\<close> builds from the root path of the backend, \<open>blocks\<close> and the
  container id, \<open>Fstype = xfs\<close>, \<open>Format = raw\<close> and \<open>ReadOnly\<close> equal to the flag.
  For a clean absolute root path and a container id that is a plain name, that path is
  the root path, \<open>/blocks/\<close> and the container id.
\<close>

theorem RawBlock_PrepareContainer_result:
  "PrepareContainer env (RawBlockStorage root) containerId sharedDir readonly w =
     ((Some \<lparr>Name = filepath_Join [root, ''blocks'', containerId],
              Source = filepath_Join [root, ''blocks'', containerId],
              Fstype = ''xfs'', Format = ''raw'', ReadOnly = readonly\<rparr>, None), w)
   \<and> (clean_abs root \<and> plain containerId \<longrightarrow>
        filepath_Join [root, ''blocks'', containerId] = root @ ''/blocks/'' @ containerId)"
proof -
  have "plain ''blocks''"
    by (simp add: plain_def)
  then have "filepath_Join [root, ''blocks'', containerId] = root @ ''/blocks/'' @ containerId"
    if "clean_abs root" and "plain containerId"
    using that Join_plain3 [of root "''blocks''" containerId] by simp
  then show ?thesis
    by (simp add: Let_def)
qed

theorem RawBlock_PrepareContainer_result_witness:
  "clean_abs ''/var/lib/hyper/rawblock'' \<and> plain ''c1''
   \<and> PrepareContainer host_env rawblock0 ''c1'' ''/run/hyper'' False host0 =
     ((Some \<lparr>Name = ''/var/lib/hyper/rawblock/blocks/c1'',
              Source = ''/var/lib/hyper/rawblock/blocks/c1'',
              Fstype = ''xfs'', Format = ''raw'', ReadOnly = False\<rparr>, None), host0)"
proof -
  have names: "clean_abs ''/var/lib/hyper/rawblock'' \<and> plain ''c1''"
    by (simp add: clean_abs_def plain_def)
  with RawBlock_PrepareContainer_result [where env = host_env
          and root = "''/var/lib/hyper/rawblock''" and containerId = "''c1''"
          and sharedDir = "''/run/hyper''" and readonly = False and w = host0]
  show ?thesis
    by (simp add: rawblock0_def Let_def)
qed

text \<open>
  Claim C10. The raw-block \<open>PrepareContainer\<close> returns a descriptor and no error for
  every container id, shared directory and flag, on every host state and with any
  helpers: it looks at nothing on the host, so no image has to exist at the path.
\<close>

theorem RawBlock_PrepareContainer_infallible:
  "\<exists>vol. PrepareContainer env (RawBlockStorage root) containerId sharedDir readonly w
           = ((Some vol, None), w)"
  by (simp add: Let_def)

subsection \<open>Injecting a file\<close>




subsection \<open>Errors of the helpers\<close>

text \<open>
  On the same host the raw-block \<open>InjectFile\<close> attaches the image and copies the
  file; the detachment of the image, on the state the copy leaves, is refused with
  \<open>EBUSY\<close>, and \<open>InjectFile\<close> returns no error.
\<close>

theorem InjectFile_drops_release_error_counterexample:
  "fst (PutImage host_env ''/run/hyper'' ''c1''
          (snd (FsInjectFile host_env ''data'' ''c1'' ''etc/hosts'' ''/run/hyper'' 420 0 0
             (snd (GetImage host_env ''/var/lib/hyper/rawblock/blocks'' ''/run/hyper'' ''c1''
                     ''xfs'' [] 0 0 host_busy))))) = Some (Errno 16)
   \<and> fst (InjectFile host_env rawblock0 ''data'' ''c1'' ''etc/hosts'' ''/run/hyper'' 420 0 0
            host_busy) = None"
  by (simp add: host_simps host_busy_def)

text \<open>
  Claim C5, amended. An error of the mount, of the attachment of the image, of the
  copy, of the allocation of a volume directory, of the creation of a block image and of
  \<open>os.MkdirAll\<close> is returned to the caller as the helper returned it, and so is the
  result of the unmount that \<open>CleanupContainer\<close> of the overlay backend makes. The
  release at the end of \<open>InjectFile\<close> is the exception: once the mount or the
  attachment has succeeded, \<open>InjectFile\<close> returns the result of the copy, whatever the
  unmount or the detachment returns.
\<close>

theorem helper_errors_returned:
  "(\<forall>mp err w'.
      MountContainerToSharedDir env ident root dir [] readonly w = ((mp, Some err), w') \<longrightarrow>
      PrepareContainer env (OverlayFsStorage root) ident dir readonly w
        = ((None, Some err), w'))
   \<and> CleanupContainer env (OverlayFsStorage root) ident dir w
        = Unmount env (filepath_Join [dir, ident, ''rootfs'']) 0 w
   \<and> (\<forall>mp err w'.
      MountContainerToSharedDir env ident root dir [] False w = ((mp, Some err), w') \<longrightarrow>
      InjectFile env (OverlayFsStorage root) src ident target dir perm uid gid w
        = (Some err, w'))
   \<and> (\<forall>mp w'.
      MountContainerToSharedDir env ident root dir [] False w = ((mp, None), w') \<longrightarrow>
      fst (InjectFile env (OverlayFsStorage root) src ident target dir perm uid gid w)
        = fst (FsInjectFile env src ident target dir perm uid gid w'))
   \<and> (\<forall>err w'.
      GetImage env (filepath_Join [root, ''blocks'']) dir ident ''xfs'' [] uid gid w
        = (Some err, w') \<longrightarrow>
      InjectFile env (RawBlockStorage root) src ident target dir perm uid gid w
        = (Some err, w'))
   \<and> (\<forall>w'.
      GetImage env (filepath_Join [root, ''blocks'']) dir ident ''xfs'' [] uid gid w
        = (None, w') \<longrightarrow>
      fst (InjectFile env (RawBlockStorage root) src ident target dir perm uid gid w)
        = fst (FsInjectFile env src ident target dir perm uid gid w'))
   \<and> (\<forall>v err w'.
      CreateVFSVolume env podId (spec_Name spec) w = ((v, Some err), w') \<longrightarrow>
      CreateVolume env (OverlayFsStorage root) podId spec w = ((Some err, spec), w'))
   \<and> (\<forall>err w'.
      CreateBlock env (filepath_Join [root, ''volumes'', podId @ ''-'' @ spec_Name spec])
        ''xfs'' [] (word_of_int (DEFAULT_DM_VOL_SIZE env)) w = (Some err, w') \<longrightarrow>
      CreateVolume env (RawBlockStorage root) podId spec w = ((Some err, spec), w'))
   \<and> Init env (RawBlockStorage root) w
        = MkdirAll env (filepath_Join [root, ''volumes'']) 448 w"
  by (auto simp: Let_def split: prod.splits option.splits)

theorem helper_errors_returned_witness:
  "PrepareContainer host_env overlay0 ''c2'' ''/run/hyper'' False host_used
     = ((None, Some (Errno 2)), host_used)
   \<and> CleanupContainer host_env overlay0 ''c2'' ''/run/hyper'' host_used
     = (Some (Errno 22), host_used)
   \<and> InjectFile host_env overlay0 ''data'' ''c2'' ''etc/hosts'' ''/run/hyper'' 420 0 0 host_used
     = (Some (Errno 2), host_used)
   \<and> InjectFile host_env rawblock0 ''data'' ''c2'' ''etc/hosts'' ''/run/hyper'' 420 0 0 host_used
     = (Some (Errno 2), host_used)
   \<and> CreateVolume host_env overlay0 ''p1'' spec0 host_used
     = ((Some (Errno 17), spec0), host_used)
   \<and> CreateVolume host_env rawblock0 ''p1'' spec0 host_used
     = ((Some (Errno 17), spec0), host_used)
   \<and> Init host_env rawblock0 host_used = (Some (Errno 20), host_used)
   \<and> fst (InjectFile host_env overlay0 ''data'' ''c1'' [] ''/run/hyper'' 420 0 0 host0)
     = Some (Errno 21)
   \<and> fst (InjectFile host_env rawblock0 ''data'' ''c1'' [] ''/run/hyper'' 420 0 0 host0)
     = Some (Errno 21)"
  using helper_errors_returned [where env = host_env and ident = "''c2''"
          and root = "''/var/lib/hyper/overlay''" and dir = "''/run/hyper''"
          and readonly = False and w = host_used and src = "''data''"
          and target = "''etc/hosts''" and perm = 420 and uid = 0 and gid = 0
          and podId = "''p1''" and spec = spec0]
        helper_errors_returned [where env = host_env and ident = "''c2''"
          and root = "''/var/lib/hyper/rawblock''" and dir = "''/run/hyper''"
          and readonly = False and w = host_used and src = "''data''"
          and target = "''etc/hosts''" and perm = 420 and uid = 0 and gid = 0
          and podId = "''p1''" and spec = spec0]
        helper_errors_returned [where env = host_env and ident = "''c1''"
          and root = "''/var/lib/hyper/overlay''" and dir = "''/run/hyper''"
          and readonly = False and w = host0 and src = "''data''"
          and target = "[]" and perm = 420 and uid = 0 and gid = 0
          and podId = "''p1''" and spec = spec0]
        helper_errors_returned [where env = host_env and ident = "''c1''"
          and root = "''/var/lib/hyper/rawblock''" and dir = "''/run/hyper''"
          and readonly = False and w = host0 and src = "''data''"
          and target = "[]" and perm = 420 and uid = 0 and gid = 0
          and podId = "''p1''" and spec = spec0]
  by (simp add: host_simps host_used_def)

subsection \<open>Creating a volume\<close>

text \<open>
  Claim C6. When \<open>CreateVolume\<close> of the overlay backend returns no error, the helper
  that allocates the directory was called with the pod id and the name of the spec and
  returned a path and no error; the spec is the one passed in with \<open>Source\<close> set to that
  path, \<open>Format\<close> to \<open>vfs\<close> and \<open>Fstype\<close> to \<open>dir\<close>. When \<open>CreateVolume\<close> of the
  raw-block backend returns no error, the helper that creates a block image was called
  with the path built from the root path, \<open>volumes\<close> and the pod id, a dash and the
  name, with the file system \<open>xfs\<close>, an empty label and the default size, and returned
  no error; the spec is the one passed in with \<open>Source\<close> set to that path, \<open>Format\<close> to
  \<open>raw\<close> and \<open>Fstype\<close> to \<open>xfs\<close>. The host is as the helper left it. For a clean
  absolute root path, and a pod id and a name that make a plain name with the dash, the
  path of the image is the root path, \<open>/volumes/\<close>, the pod id, a dash and the name.
\<close>

theorem CreateVolume_success:
  "(\<forall>spec' w'.
      CreateVolume env (OverlayFsStorage root) podId spec w = ((None, spec'), w') \<longrightarrow>
      (\<exists>volName.
         CreateVFSVolume env podId (spec_Name spec) w = ((volName, None), w')
         \<and> spec' = spec\<lparr>spec_Source := volName, spec_Format := ''vfs'',
                          spec_Fstype := ''dir''\<rparr>))
   \<and> (\<forall>spec' w'.
      CreateVolume env (RawBlockStorage root) podId spec w = ((None, spec'), w') \<longrightarrow>
      CreateBlock env (filepath_Join [root, ''volumes'', podId @ ''-'' @ spec_Name spec])
        ''xfs'' [] (word_of_int (DEFAULT_DM_VOL_SIZE env)) w = (None, w')
      \<and> spec' = spec\<lparr>spec_Source :=
                         filepath_Join [root, ''volumes'', podId @ ''-'' @ spec_Name spec],
                       spec_Format := ''raw'', spec_Fstype := ''xfs''\<rparr>)
   \<and> (clean_abs root \<and> plain (podId @ ''-'' @ spec_Name spec) \<longrightarrow>
        filepath_Join [root, ''volumes'', podId @ ''-'' @ spec_Name spec]
          = root @ ''/volumes/'' @ podId @ ''-'' @ spec_Name spec)"
proof -
  have "plain ''volumes''"
    by (simp add: plain_def)
  then have path:
    "filepath_Join [root, ''volumes'', podId @ ''-'' @ spec_Name spec]
       = root @ ''/volumes/'' @ podId @ ''-'' @ spec_Name spec"
    if "clean_abs root" and "plain (podId @ ''-'' @ spec_Name spec)"
    using that Join_plain3 [of root "''volumes''" "podId @ ''-'' @ spec_Name spec"] by simp
  have overlay:
    "\<exists>volName.
       CreateVFSVolume env podId (spec_Name spec) w = ((volName, None), w')
       \<and> spec' = spec\<lparr>spec_Source := volName, spec_Format := ''vfs'',
                        spec_Fstype := ''dir''\<rparr>"
    if "CreateVolume env (OverlayFsStorage root) podId spec w = ((None, spec'), w')"
    for spec' w'
    using that by (auto split: prod.splits option.splits)
  have rawblock:
    "CreateBlock env (filepath_Join [root, ''volumes'', podId @ ''-'' @ spec_Name spec])
       ''xfs'' [] (word_of_int (DEFAULT_DM_VOL_SIZE env)) w = (None, w')
     \<and> spec' = spec\<lparr>spec_Source :=
                        filepath_Join [root, ''volumes'', podId @ ''-'' @ spec_Name spec],
                      spec_Format := ''raw'', spec_Fstype := ''xfs''\<rparr>"
    if "CreateVolume env (RawBlockStorage root) podId spec w = ((None, spec'), w')"
    for spec' w'
    using that by (auto simp: Let_def split: prod.splits option.splits)
  from overlay rawblock path show ?thesis
    by blast
qed

theorem CreateVolume_success_witness:
  "CreateVolume host_env overlay0 ''p1'' spec0 host0
     = ((None, \<lparr>spec_Name = ''data'', spec_Source = ''/var/lib/hyper/vfs/p1/data'',
                 spec_Format = ''vfs'', spec_Fstype = ''dir''\<rparr>),
        host0\<lparr>dirs := [(''/var/lib/hyper/vfs/p1/data'', 493)]\<rparr>)
   \<and> CreateVFSVolume host_env ''p1'' ''data'' host0
     = ((''/var/lib/hyper/vfs/p1/data'', None),
        host0\<lparr>dirs := [(''/var/lib/hyper/vfs/p1/data'', 493)]\<rparr>)
   \<and> CreateVolume host_env rawblock0 ''p1'' spec0 host0
     = ((None, \<lparr>spec_Name = ''data'',
                 spec_Source = ''/var/lib/hyper/rawblock/volumes/p1-data'',
                 spec_Format = ''raw'', spec_Fstype = ''xfs''\<rparr>),
        host0\<lparr>blocks := [(''/var/lib/hyper/rawblock/volumes/p1-data'', 2147483648)]\<rparr>)
   \<and> CreateBlock host_env ''/var/lib/hyper/rawblock/volumes/p1-data'' ''xfs'' [] 2147483648
        host0
     = (None, host0\<lparr>blocks := [(''/var/lib/hyper/rawblock/volumes/p1-data'', 2147483648)]\<rparr>)
   \<and> clean_abs ''/var/lib/hyper/rawblock'' \<and> plain ''p1-data''"
  using CreateVolume_success [where env = host_env and root = "''/var/lib/hyper/overlay''"
          and podId = "''p1''" and spec = spec0 and w = host0]
        CreateVolume_success [where env = host_env and root = "''/var/lib/hyper/rawblock''"
          and podId = "''p1''" and spec = spec0 and w = host0]
  by (simp add: host_simps clean_abs_def plain_def)

text \<open>
  Claim C7. For both backends, when \<open>CreateVolume\<close> returns an error, the spec is the
  one that was passed in: \<open>Source\<close>, \<open>Fstype\<close> and \<open>Format\<close>, and the name, hold
  the values they had before the call.
\<close>

theorem CreateVolume_failure_keeps_spec:
  "fst (fst (CreateVolume env s podId spec w)) \<noteq> None \<longrightarrow>
     snd (fst (CreateVolume env s podId spec w)) = spec"
  by (cases s) (auto simp: Let_def split: prod.splits option.splits)

theorem CreateVolume_failure_keeps_spec_witness:
  "fst (fst (CreateVolume host_env overlay0 ''p1'' spec0 host_used)) = Some (Errno 17)
   \<and> snd (fst (CreateVolume host_env overlay0 ''p1'' spec0 host_used)) = spec0
   \<and> fst (fst (CreateVolume host_env rawblock0 ''p1'' spec0 host_used)) = Some (Errno 17)
   \<and> snd (fst (CreateVolume host_env rawblock0 ''p1'' spec0 host_used)) = spec0"
  using CreateVolume_failure_keeps_spec [where env = host_env and s = overlay0
          and podId = "''p1''" and spec = spec0 and w = host_used]
        CreateVolume_failure_keeps_spec [where env = host_env and s = rawblock0
          and podId = "''p1''" and spec = spec0 and w = host_used]
  by (simp add: host_simps host_used_def)

subsection \<open>Initialising the raw-block backend\<close>

text \<open>
  On the sample host where \<open>/var/lib/hyper/rawblock/volumes\<close> exists with the
  permission bits \<open>0755\<close> (493), \<open>Init\<close> succeeds twice in a row and the directory
  still has the bits \<open>0755\<close>, not \<open>0700\<close> (448).
\<close>

theorem Init_keeps_old_mode_counterexample:
  "fst (Init host_env rawblock0 host_old) = None
   \<and> fst (Init host_env rawblock0 (snd (Init host_env rawblock0 host_old))) = None
   \<and> dir_mode (snd (Init host_env rawblock0 (snd (Init host_env rawblock0 host_old))))
        ''/var/lib/hyper/rawblock/volumes'' = Some 493"
  by (simp add: host_simps host_old_def)

text \<open>
  Claim C8, amended. \<open>Init\<close> of the raw-block backend is one call of \<open>os.MkdirAll\<close>
  for the path built from the root path and \<open>volumes\<close>, asking for the permission
  bits \<open>0700\<close>; it returns what the call returns, an error unchanged, and changes no
  mode itself. With an \<open>os.MkdirAll\<close> that does nothing and reports success when the
  path is a directory already, and whose new directory has no permission bit the call
  did not ask for: when \<open>Init\<close> succeeds, the directory is present; if it was not
  there before, it has no permission bit outside \<open>0700\<close>, and if it was, it has the
  bits it had; and a second \<open>Init\<close> right after succeeds as well and changes
  nothing.
\<close>

theorem Init_idempotent:
  assumes "MkdirAll_keeps env mode" and "MkdirAll_creates env mode"
  shows
   "Init env (RawBlockStorage root) w = MkdirAll env (filepath_Join [root, ''volumes'']) 448 w
    \<and> (\<forall>w'. Init env (RawBlockStorage root) w = (None, w') \<longrightarrow>
          (\<exists>m. mode w' (filepath_Join [root, ''volumes'']) = Some m
             \<and> (case mode w (filepath_Join [root, ''volumes'']) of
                   None \<Rightarrow> m AND NOT 448 = 0
                 | Some m0 \<Rightarrow> m = m0))
          \<and> Init env (RawBlockStorage root) w' = (None, w'))"
proof -
  let ?p = "filepath_Join [root, ''volumes'']"
  have eq: "Init env (RawBlockStorage root) v = MkdirAll env ?p 448 v" for v
    by (simp split: prod.splits option.splits)
  have "(\<exists>m. mode w' ?p = Some m
           \<and> (case mode w ?p of None \<Rightarrow> m AND NOT 448 = 0 | Some m0 \<Rightarrow> m = m0))
        \<and> MkdirAll env ?p 448 w' = (None, w')"
    if ok: "MkdirAll env ?p 448 w = (None, w')" for w'
  proof (cases "mode w ?p")
    case None
    with assms(2) ok obtain m where m: "mode w' ?p = Some m" "m AND NOT 448 = 0"
      unfolding MkdirAll_creates_def by blast
    from m(1) assms(1) have "MkdirAll env ?p 448 w' = (None, w')"
      by (simp add: MkdirAll_keeps_def)
    with m None show ?thesis
      by simp
  next
    case (Some m0)
    with assms(1) have "MkdirAll env ?p 448 w = (None, w)"
      by (simp add: MkdirAll_keeps_def)
    with ok have "w' = w"
      by simp
    with Some assms(1) show ?thesis
      by (simp add: MkdirAll_keeps_def)
  qed
  with eq show ?thesis
    by simp
qed

theorem Init_idempotent_witness:
  "MkdirAll_keeps host_env dir_mode \<and> MkdirAll_creates host_env dir_mode
   \<and> dir_mode host0 ''/var/lib/hyper/rawblock/volumes'' = None
   \<and> Init host_env rawblock0 host0
       = (None, host0\<lparr>dirs := [(''/var/lib/hyper/rawblock/volumes'', 448)]\<rparr>)
   \<and> Init host_env rawblock0 (host0\<lparr>dirs := [(''/var/lib/hyper/rawblock/volumes'', 448)]\<rparr>)
       = (None, host0\<lparr>dirs := [(''/var/lib/hyper/rawblock/volumes'', 448)]\<rparr>)
   \<and> dir_mode host_strict ''/var/lib/hyper/rawblock/volumes'' = None
   \<and> Init host_env rawblock0 host_strict
       = (None, host_strict\<lparr>dirs := [(''/var/lib/hyper/rawblock/volumes'', 256)]\<rparr>)
   \<and> (256 :: 32 word) AND NOT 448 = 0
   \<and> Init host_env rawblock0
        (host_strict\<lparr>dirs := [(''/var/lib/hyper/rawblock/volumes'', 256)]\<rparr>)
       = (None, host_strict\<lparr>dirs := [(''/var/lib/hyper/rawblock/volumes'', 256)]\<rparr>)
   \<and> Init host_env rawblock0 host_used = (Some (Errno 20), host_used)"
  using host_MkdirAll_keeps host_MkdirAll_creates
        Init_idempotent [OF host_MkdirAll_keeps host_MkdirAll_creates,
          where root = "''/var/lib/hyper/rawblock''" and w = host0]
        Init_idempotent [OF host_MkdirAll_keeps host_MkdirAll_creates,
          where root = "''/var/lib/hyper/rawblock''" and w = host_strict]
        Init_idempotent [OF host_MkdirAll_keeps host_MkdirAll_creates,
          where root = "''/var/lib/hyper/rawblock''" and w = host_used]
  by (simp add: host_simps host_used_def host_strict_def)

subsection \<open>Cleaning up a container\<close>




end
